theory Spec2Isabelle
  imports Complex_Main "HOL-Library.Word"
begin

section \<open>Streaming audio buffers of \<open>backend/voice/audio_utils.py\<close>\<close>

text \<open>
  The development embeds the classes \<open>AudioBuffer\<close>, \<open>VADBuffer\<close> and
  \<open>AudioValidator\<close>. Python's \<open>bytes\<close> is a list of 8-bit words. Python floats
  (durations, thresholds, \<open>time.perf_counter()\<close> readings, the float32 samples of
  numpy) are idealised as real numbers: rounding is not modelled. The clock is an
  explicit argument \<open>now\<close> of every method that reads \<open>time.perf_counter()\<close>.
\<close>

type_synonym bytes = "8 word list"

subsection \<open>The external decoder (pydub)\<close>

text \<open>
  \<open>pydub.AudioSegment\<close> is a library outside the repository. It is a parameter of
  the model: whether \<open>from pydub import AudioSegment\<close> succeeds, what
  \<open>AudioSegment.from_file(io.BytesIO(data), format=f)\<close> gives (\<open>None\<close> for the
  format when the argument is left out, which lets pydub detect it) and what
  \<open>audio.export(out, format=f)\<close> writes. Each of them may raise. Every call made
  is recorded, in order, in a list of \<open>call\<close>s.
\<close>

datatype exn = ImportError | CouldntDecodeError | CouldntEncodeError | ValueError

record 'a pydub =
  importable :: bool
  from_file :: "bytes \<Rightarrow> string option \<Rightarrow> exn + 'a"
  export :: "'a \<Rightarrow> string \<Rightarrow> exn + bytes"

datatype 'a call = From_file bytes "string option" | Export 'a string

text \<open>
  The inner \<open>try\<close> of \<open>get_audio\<close> and \<open>get_audio_and_reset\<close>:
  \<^verbatim>\<open>
  try:
      audio = AudioSegment.from_file(io.BytesIO(combined_bytes), format="webm")
  except Exception:
      audio = AudioSegment.from_file(io.BytesIO(combined_bytes))
  \<close>
\<close>

definition decode_combined :: "'a pydub \<Rightarrow> bytes \<Rightarrow> (exn + 'a) \<times> 'a call list" where
  "decode_combined p combined_bytes =
     (case from_file p combined_bytes (Some ''webm'') of
        Inr audio \<Rightarrow> (Inr audio, [From_file combined_bytes (Some ''webm'')])
      | Inl webm_error \<Rightarrow>
          (from_file p combined_bytes None,
           [From_file combined_bytes (Some ''webm''), From_file combined_bytes None]))"

text \<open>
  The body of the outer \<open>try\<close>, shared word for word by both buffers: import pydub,
  join the chunks, decode, export as WAV and read the result back. An exception of
  any step leaves the body with that exception.
\<close>

definition convert_chunks :: "'a pydub \<Rightarrow> bytes list \<Rightarrow> (exn + bytes) \<times> 'a call list" where
  "convert_chunks p cs =
     (if \<not> importable p then (Inl ImportError, [])
      else
        let combined_bytes = concat cs in
        (case decode_combined p combined_bytes of
           (Inl e, tr) \<Rightarrow> (Inl e, tr)
         | (Inr audio, tr) \<Rightarrow> (export p audio ''wav'', tr @ [Export audio ''wav''])))"

subsection \<open>\<open>AudioBuffer\<close>\<close>

text \<open>
  The field \<open>chunks\<close> of \<open>AudioBuffer\<close> is named \<open>chunks_ab\<close> here, since
  \<open>VADBuffer\<close> has a field of the same name. The field \<open>processor\<close> holds no state
  and is left out.
\<close>

record AudioBuffer =
  chunk_duration :: real
  max_duration :: real
  chunks_ab :: "bytes list"
  total_duration :: real

definition AudioBuffer_init :: "real \<Rightarrow> real \<Rightarrow> AudioBuffer" where
  "AudioBuffer_init cd md =
     \<lparr>chunk_duration = cd, max_duration = md, chunks_ab = [], total_duration = 0\<rparr>"

definition add :: "AudioBuffer \<Rightarrow> bytes \<Rightarrow> AudioBuffer" where
  "add b audio_data =
     (let estimated_duration = real (length audio_data) / 3200 in
      b\<lparr>chunks_ab := chunks_ab b @ [audio_data],
        total_duration := total_duration b + estimated_duration\<rparr>)"

definition is_ready :: "AudioBuffer \<Rightarrow> bool" where
  "is_ready b = (total_duration b \<ge> chunk_duration b)"

definition is_full :: "AudioBuffer \<Rightarrow> bool" where
  "is_full b = (total_duration b \<ge> max_duration b)"

text \<open>
  \<open>get_audio\<close> returns its value, the buffer after the call and the pydub calls it
  made. The handler of the outer \<open>try\<close> returns the joined chunks.
\<close>

definition get_audio :: "'a pydub \<Rightarrow> AudioBuffer \<Rightarrow> (exn + bytes) \<times> AudioBuffer \<times> 'a call list" where
  "get_audio p b =
     (if chunks_ab b = [] then (Inr [], b, [])
      else
        (case convert_chunks p (chunks_ab b) of
           (Inr wav, tr) \<Rightarrow> (Inr wav, b, tr)
         | (Inl e, tr) \<Rightarrow> (Inr (concat (chunks_ab b)), b, tr)))"

definition clear_ab :: "AudioBuffer \<Rightarrow> AudioBuffer" where
  "clear_ab b = b\<lparr>chunks_ab := [], total_duration := 0\<rparr>"

definition get_duration_ab :: "AudioBuffer \<Rightarrow> real" where
  "get_duration_ab b = total_duration b"

definition get_chunk_count_ab :: "AudioBuffer \<Rightarrow> nat" where
  "get_chunk_count_ab b = length (chunks_ab b)"

subsection \<open>\<open>VADBuffer\<close>\<close>

record VADBuffer =
  silence_threshold_ms :: int
  max_duration_s :: real
  rms_silence_threshold :: real
  sample_rate :: int
  chunks :: "bytes list"
  total_bytes :: int
  silence_start_time :: "real option"
  has_speech :: bool

definition VADBuffer_init :: "int \<Rightarrow> real \<Rightarrow> real \<Rightarrow> int \<Rightarrow> VADBuffer" where
  "VADBuffer_init st md rt sr =
     \<lparr>silence_threshold_ms = st, max_duration_s = md, rms_silence_threshold = rt,
      sample_rate = sr, chunks = [], total_bytes = 0, silence_start_time = None,
      has_speech = False\<rparr>"

text \<open>The constructor's defaults.\<close>

definition VADBuffer_default :: VADBuffer where
  "VADBuffer_default = VADBuffer_init 1000 6 (1 / 100) 16000"

text \<open>
  \<open>np.frombuffer(audio_bytes, dtype=np.int16)\<close>: the bytes read as little-endian
  signed 16-bit samples. numpy raises \<open>ValueError\<close> when the size of the buffer is
  not a multiple of the element size; an empty buffer gives an empty array.
\<close>

definition int16_of :: "8 word \<Rightarrow> 8 word \<Rightarrow> int" where
  "int16_of lo hi =
     (let u = uint lo + 256 * uint hi in if u \<ge> 32768 then u - 65536 else u)"

fun int16_samples :: "bytes \<Rightarrow> int list" where
  "int16_samples (lo # hi # rest) = int16_of lo hi # int16_samples rest"
| "int16_samples _ = []"

definition frombuffer_int16 :: "bytes \<Rightarrow> exn + int list" where
  "frombuffer_int16 audio_bytes =
     (if length audio_bytes mod 2 \<noteq> 0 then Inl ValueError
      else Inr (int16_samples audio_bytes))"

text \<open>\<open>np.sqrt(np.mean(audio_array ** 2))\<close> on a non-empty array.\<close>

definition rms_of :: "real list \<Rightarrow> real" where
  "rms_of audio_array =
     sqrt (sum_list (map (\<lambda>x. x ^ 2) audio_array) / real (length audio_array))"

text \<open>\<open>VADBuffer._is_silence\<close>; the \<open>except\<close> branch answers \<open>False\<close>.\<close>

definition is_silence :: "VADBuffer \<Rightarrow> bytes \<Rightarrow> bool" where
  "is_silence b audio_bytes =
     (case frombuffer_int16 audio_bytes of
        Inl e \<Rightarrow> False
      | Inr samples \<Rightarrow>
          if length samples = 0 then True
          else
            let audio_array = map (\<lambda>x. real_of_int x / 32768) samples;
                rms = rms_of audio_array
            in rms < rms_silence_threshold b)"

definition add_chunk :: "VADBuffer \<Rightarrow> real \<Rightarrow> bytes \<Rightarrow> VADBuffer" where
  "add_chunk b now audio_bytes =
     (let b1 = b\<lparr>chunks := chunks b @ [audio_bytes],
                 total_bytes := total_bytes b + int (length audio_bytes)\<rparr>
      in if is_silence b1 audio_bytes then
           (if silence_start_time b1 = None then b1\<lparr>silence_start_time := Some now\<rparr>
            else b1)
         else b1\<lparr>silence_start_time := None, has_speech := True\<rparr>)"

definition should_trigger :: "VADBuffer \<Rightarrow> real \<Rightarrow> bool" where
  "should_trigger b now =
     (if \<not> has_speech b then False
      else if (case silence_start_time b of
                 None \<Rightarrow> False
               | Some t0 \<Rightarrow> (now - t0) * 1000 \<ge> real_of_int (silence_threshold_ms b))
           then True
      else if real_of_int (total_bytes b) / 3200 \<ge> max_duration_s b then True
      else False)"

definition clear :: "VADBuffer \<Rightarrow> VADBuffer" where
  "clear b = b\<lparr>chunks := [], total_bytes := 0, silence_start_time := None,
               has_speech := False\<rparr>"

text \<open>
  \<open>get_audio_and_reset\<close> returns its value, the buffer after the call and the
  pydub calls it made. With no chunks it returns before the \<open>try\<close> and before
  \<open>self.clear()\<close>.
\<close>

definition get_audio_and_reset ::
  "'a pydub \<Rightarrow> VADBuffer \<Rightarrow> (exn + bytes) \<times> VADBuffer \<times> 'a call list" where
  "get_audio_and_reset p b =
     (if chunks b = [] then (Inr [], b, [])
      else
        (case convert_chunks p (chunks b) of
           (r, tr) \<Rightarrow>
             let wav_bytes = (case r of Inr w \<Rightarrow> w | Inl e \<Rightarrow> concat (chunks b))
             in (Inr wav_bytes, clear b, tr)))"

definition get_duration :: "VADBuffer \<Rightarrow> real" where
  "get_duration b = real_of_int (total_bytes b) / 3200"

definition get_chunk_count :: "VADBuffer \<Rightarrow> nat" where
  "get_chunk_count b = length (chunks b)"

text \<open>
  The ingestion path of a session: \<open>add_chunk\<close> for each arriving fragment, in
  order, each with the clock reading of its arrival.
\<close>

fun add_chunks :: "VADBuffer \<Rightarrow> (real \<times> bytes) list \<Rightarrow> VADBuffer" where
  "add_chunks b [] = b"
| "add_chunks b ((now, audio_bytes) # rest) = add_chunks (add_chunk b now audio_bytes) rest"

text \<open>
  The methods of a \<open>VADBuffer\<close> as operations, and the buffer a caller reaches by
  a sequence of them from the constructor.
\<close>

datatype vad_op =
    Add_chunk real bytes
  | Should_trigger real
  | Get_audio_and_reset
  | Clear
  | Get_duration
  | Get_chunk_count

fun step :: "'a pydub \<Rightarrow> VADBuffer \<Rightarrow> vad_op \<Rightarrow> VADBuffer" where
  "step p b (Add_chunk now audio_bytes) = add_chunk b now audio_bytes"
| "step p b (Should_trigger now) = b"
| "step p b Get_audio_and_reset = fst (snd (get_audio_and_reset p b))"
| "step p b Clear = clear b"
| "step p b Get_duration = b"
| "step p b Get_chunk_count = b"

fun run :: "'a pydub \<Rightarrow> VADBuffer \<Rightarrow> vad_op list \<Rightarrow> VADBuffer" where
  "run p b [] = b"
| "run p b (x # xs) = run p (step p b x) xs"

subsection \<open>\<open>AudioValidator\<close>\<close>

text \<open>
  \<open>validate_format\<close>: the argument \<open>allowed_formats\<close> is \<open>None\<close> or a list. The only
  decode is \<open>AudioSegment.from_file(io.BytesIO(audio_bytes))\<close>, with no format.
\<close>

definition validate_format ::
  "'a pydub \<Rightarrow> bytes \<Rightarrow> string list option \<Rightarrow> (exn + bool) \<times> 'a call list" where
  "validate_format p audio_bytes allowed_formats =
     (let allowed_formats =
            (case allowed_formats of
               None \<Rightarrow> [''wav'', ''mp3'', ''webm'', ''ogg'']
             | Some fs \<Rightarrow> fs)
      in if \<not> importable p then (Inr False, [])
         else
           (case from_file p audio_bytes None of
              Inr audio \<Rightarrow> (Inr True, [From_file audio_bytes None])
            | Inl e \<Rightarrow> (Inr False, [From_file audio_bytes None])))"

subsection \<open>Decoders for the examples\<close>

text \<open>
  Four stand-ins for pydub, with \<open>unit\<close> as the decoded audio. \<open>pydub_none\<close>
  decodes nothing. \<open>pydub_auto\<close> decodes the stream \<open>[1, 2]\<close>, only when left to
  detect the format or told \<open>mp3\<close>, and exports the bytes \<open>[9]\<close>.
  \<open>pydub_webm\<close> decodes every stream as webm and exports the bytes \<open>[7]\<close>.
  \<open>pydub_missing\<close> is not installed.
\<close>

definition pydub_none :: "unit pydub" where
  "pydub_none =
     \<lparr>importable = True,
      from_file = (\<lambda>bs f. Inl CouldntDecodeError),
      export = (\<lambda>a f. Inl CouldntEncodeError)\<rparr>"

definition pydub_auto :: "unit pydub" where
  "pydub_auto =
     \<lparr>importable = True,
      from_file = (\<lambda>bs f. if bs = [1, 2] \<and> (f = None \<or> f = Some ''mp3'') then Inr ()
                           else Inl CouldntDecodeError),
      export = (\<lambda>a f. Inr [9])\<rparr>"

definition pydub_webm :: "unit pydub" where
  "pydub_webm =
     \<lparr>importable = True,
      from_file = (\<lambda>bs f. if f = Some ''webm'' then Inr () else Inl CouldntDecodeError),
      export = (\<lambda>a f. Inr [7])\<rparr>"

definition pydub_missing :: "unit pydub" where
  "pydub_missing =
     \<lparr>importable = False,
      from_file = (\<lambda>bs f. Inl CouldntDecodeError),
      export = (\<lambda>a f. Inl CouldntEncodeError)\<rparr>"

subsection \<open>Fragments for the examples\<close>

text \<open>A fragment of \<open>n\<close> samples of value zero, \<open>2 * n\<close> bytes.\<close>

definition silent_fragment :: "nat \<Rightarrow> bytes" where
  "silent_fragment n = replicate (2 * n) 0"

section \<open>Properties\<close>

subsection \<open>What \<open>add_chunk\<close> does to each field\<close>

lemma is_silence_threshold:
  "rms_silence_threshold b = rms_silence_threshold b' \<Longrightarrow> is_silence b f = is_silence b' f"
  by (simp add: is_silence_def Let_def split: sum.splits)

lemma is_silence_appended:
  "is_silence (b\<lparr>chunks := cs, total_bytes := n\<rparr>) f = is_silence b f"
  by (simp add: is_silence_def Let_def split: sum.splits)

lemma add_chunk_config [simp]:
  "rms_silence_threshold (add_chunk b now f) = rms_silence_threshold b"
  "silence_threshold_ms (add_chunk b now f) = silence_threshold_ms b"
  "max_duration_s (add_chunk b now f) = max_duration_s b"
  by (simp_all add: add_chunk_def Let_def)

lemma add_chunk_chunks [simp]: "chunks (add_chunk b now f) = chunks b @ [f]"
  by (simp add: add_chunk_def Let_def)

lemma add_chunk_total_bytes [simp]:
  "total_bytes (add_chunk b now f) = total_bytes b + int (length f)"
  by (simp add: add_chunk_def Let_def)

lemma add_chunk_has_speech:
  "has_speech (add_chunk b now f) = (has_speech b \<or> \<not> is_silence b f)"
  by (simp add: add_chunk_def Let_def is_silence_appended)

lemma add_chunk_silence_start:
  "silence_start_time (add_chunk b now f) =
     (if is_silence b f
      then (case silence_start_time b of None \<Rightarrow> Some now | Some t0 \<Rightarrow> Some t0)
      else None)"
  by (simp add: add_chunk_def Let_def is_silence_appended split: option.splits)

lemma add_chunks_config [simp]:
  "rms_silence_threshold (add_chunks b frs) = rms_silence_threshold b"
  "silence_threshold_ms (add_chunks b frs) = silence_threshold_ms b"
  "max_duration_s (add_chunks b frs) = max_duration_s b"
  by (induction b frs rule: add_chunks.induct) simp_all

lemma add_chunks_append: "add_chunks b (xs @ ys) = add_chunks (add_chunks b xs) ys"
  by (induction b xs rule: add_chunks.induct) simp_all

lemma add_chunks_total_bytes:
  "total_bytes (add_chunks b frs) = total_bytes b + (\<Sum>x\<leftarrow>frs. int (length (snd x)))"
  by (induction b frs rule: add_chunks.induct) simp_all

lemma add_chunks_chunks: "chunks (add_chunks b frs) = chunks b @ map snd frs"
  by (induction b frs rule: add_chunks.induct) simp_all

lemma add_chunks_keeps_speech: "has_speech b \<Longrightarrow> has_speech (add_chunks b frs)"
  by (induction b frs rule: add_chunks.induct) (simp_all add: add_chunk_has_speech)

lemma add_chunks_all_silence:
  "\<forall>x\<in>set frs. is_silence b (snd x) \<Longrightarrow> has_speech (add_chunks b frs) = has_speech b"
proof (induction b frs rule: add_chunks.induct)
  case (1 b)
  then show ?case by simp
next
  case (2 b now f rest)
  have same: "is_silence (add_chunk b now f) = is_silence b"
    by (rule ext) (simp add: is_silence_threshold [of "add_chunk b now f" b])
  from 2 show ?case by (simp add: same add_chunk_has_speech)
qed

lemma add_chunks_some_speech:
  "\<exists>x\<in>set frs. \<not> is_silence b (snd x) \<Longrightarrow> has_speech (add_chunks b frs)"
proof (induction b frs rule: add_chunks.induct)
  case (1 b)
  then show ?case by simp
next
  case (2 b now f rest)
  have same: "is_silence (add_chunk b now f) = is_silence b"
    by (rule ext) (simp add: is_silence_threshold [of "add_chunk b now f" b])
  show ?case
  proof (cases "is_silence b f")
    case True
    with 2 show ?thesis by (simp add: same)
  next
    case False
    then have "has_speech (add_chunk b now f)" by (simp add: add_chunk_has_speech)
    then show ?thesis by (simp add: add_chunks_keeps_speech)
  qed
qed

lemma add_chunks_silence_run:
  "silence_start_time b = Some t0 \<Longrightarrow> \<forall>x\<in>set frs. is_silence b (snd x) \<Longrightarrow>
   silence_start_time (add_chunks b frs) = Some t0"
proof (induction b frs rule: add_chunks.induct)
  case (1 b)
  then show ?case by simp
next
  case (2 b now f rest)
  have same: "is_silence (add_chunk b now f) = is_silence b"
    by (rule ext) (simp add: is_silence_threshold [of "add_chunk b now f" b])
  from 2 show ?case by (simp add: same add_chunk_silence_start)
qed

subsection \<open>Examples of classification\<close>

lemma int16_samples_zeros: "int16_samples (replicate (2 * n) 0) = replicate n 0"
  by (induction n) (simp_all add: int16_of_def)

lemma is_silence_zeros:
  "0 < rms_silence_threshold b \<Longrightarrow> is_silence b (replicate (2 * n) 0)"
  by (simp add: is_silence_def frombuffer_int16_def int16_samples_zeros rms_of_def
      sum_list_replicate)

lemma is_silence_quiet: "is_silence VADBuffer_default [0, 0]"
  by (simp add: is_silence_def frombuffer_int16_def int16_of_def rms_of_def
      VADBuffer_default_def VADBuffer_init_def)

lemma not_is_silence_loud: "\<not> is_silence VADBuffer_default [0, 64]"
  by (simp add: is_silence_def frombuffer_int16_def int16_of_def rms_of_def
      VADBuffer_default_def VADBuffer_init_def real_sqrt_divide)


lemma clear_fields [simp]:
  "chunks (clear b) = []"
  "total_bytes (clear b) = 0"
  "silence_start_time (clear b) = None"
  "has_speech (clear b) = False"
  "rms_silence_threshold (clear b) = rms_silence_threshold b"
  by (simp_all add: clear_def)

lemma init_fields [simp]:
  "chunks (VADBuffer_init st md rt sr) = []"
  "total_bytes (VADBuffer_init st md rt sr) = 0"
  "silence_start_time (VADBuffer_init st md rt sr) = None"
  "has_speech (VADBuffer_init st md rt sr) = False"
  by (simp_all add: VADBuffer_init_def)

lemma should_trigger_needs_speech: "\<not> has_speech b \<Longrightarrow> \<not> should_trigger b now"
  by (simp add: should_trigger_def)

lemma get_audio_and_reset_state:
  "fst (snd (get_audio_and_reset p b)) = (if chunks b = [] then b else clear b)"
  by (simp add: get_audio_and_reset_def Let_def split: prod.splits)

lemma get_audio_and_reset_result:
  "chunks b \<noteq> [] \<Longrightarrow>
   get_audio_and_reset p b =
     (Inr (case fst (convert_chunks p (chunks b)) of
             Inr w \<Rightarrow> w | Inl e \<Rightarrow> concat (chunks b)),
      clear b, snd (convert_chunks p (chunks b)))"
  by (simp add: get_audio_and_reset_def Let_def split: prod.splits)

subsection \<open>Silence alone never triggers\<close>

text \<open>
  Claim C2. A buffer that is fresh from the constructor or from \<open>clear\<close> receives
  fragments that all classify as silence. After each of them (after every prefix
  of the sequence) \<open>should_trigger\<close> is false, at every clock reading.
\<close>

theorem silence_only_never_triggers:
  assumes fresh: "b0 = VADBuffer_init st md rt sr \<or> b0 = clear b"
    and silent: "\<forall>x\<in>set frs. is_silence b0 (snd x)"
  shows "\<forall>k\<le>length frs. \<not> should_trigger (add_chunks b0 (take k frs)) now"
proof (intro allI impI)
  fix k
  assume "k \<le> length frs"
  from fresh have no_speech: "\<not> has_speech b0" by auto
  from silent have "\<forall>x\<in>set (take k frs). is_silence b0 (snd x)"
    by (meson in_set_takeD)
  then have "has_speech (add_chunks b0 (take k frs)) = has_speech b0"
    by (rule add_chunks_all_silence)
  with no_speech show "\<not> should_trigger (add_chunks b0 (take k frs)) now"
    by (simp add: should_trigger_needs_speech)
qed

theorem silence_only_never_triggers_witness:
  "is_silence VADBuffer_default [0, 0] \<and>
   \<not> should_trigger (add_chunks VADBuffer_default [(0, [0, 0]), (5, [0, 0])]) 10"
proof -
  have fresh: "VADBuffer_default = VADBuffer_init 1000 6 (1 / 100) 16000
      \<or> VADBuffer_default = clear VADBuffer_default"
    by (simp add: VADBuffer_default_def)
  have silent: "\<forall>x\<in>set [(0::real, [0, 0]), (5, [0, 0::8 word])].
      is_silence VADBuffer_default (snd x)"
    by (simp add: is_silence_quiet)
  have every: "\<forall>k\<le>length [(0::real, [0, 0]), (5, [0, 0::8 word])].
      \<not> should_trigger
        (add_chunks VADBuffer_default (take k [(0, [0, 0]), (5, [0, 0])])) 10"
    by (rule silence_only_never_triggers [OF fresh silent])
  from every [THEN spec, of 2]
  have "\<not> should_trigger (add_chunks VADBuffer_default [(0, [0, 0]), (5, [0, 0])]) 10"
    by simp
  then show ?thesis by (simp add: is_silence_quiet)
qed

subsection \<open>\<open>has_speech\<close> only falls at a reset\<close>

text \<open>
  Claim C9. Once \<open>has_speech\<close> is true it is true after \<open>add_chunk\<close>, whatever the
  fragment, and after any sequence of \<open>add_chunk\<close>. Among all the methods, only
  \<open>clear\<close> and \<open>get_audio_and_reset\<close> can leave it false.
\<close>

theorem has_speech_monotone:
  assumes "has_speech b"
  shows "has_speech (add_chunk b now f)
    \<and> has_speech (add_chunks b frs)
    \<and> (\<not> has_speech (step p b x) \<longrightarrow> x = Clear \<or> x = Get_audio_and_reset)"
proof (intro conjI impI)
  from assms show "has_speech (add_chunk b now f)" by (simp add: add_chunk_has_speech)
  from assms show "has_speech (add_chunks b frs)" by (rule add_chunks_keeps_speech)
next
  assume "\<not> has_speech (step p b x)"
  with assms show "x = Clear \<or> x = Get_audio_and_reset"
    by (cases x) (simp_all add: add_chunk_has_speech)
qed

theorem has_speech_monotone_witness:
  "has_speech (add_chunk VADBuffer_default 0 [0, 64])
   \<and> has_speech (add_chunk (add_chunk VADBuffer_default 0 [0, 64]) 1 [0, 0])
   \<and> has_speech (add_chunks (add_chunk VADBuffer_default 0 [0, 64]) [(1, [0, 0]), (2, [0, 0])])
   \<and> \<not> has_speech (step pydub_none (add_chunk VADBuffer_default 0 [0, 64]) Clear)"
proof -
  have sp: "has_speech (add_chunk VADBuffer_default 0 [0, 64])"
    by (simp add: add_chunk_has_speech not_is_silence_loud)
  from has_speech_monotone [OF sp, of 1 "[0, 0]" "[(1, [0, 0]), (2, [0, 0])]" pydub_none Clear]
  show ?thesis using sp by simp
qed

subsection \<open>An empty buffer gives empty bytes\<close>

text \<open>
  Claim C10. With no chunks, \<open>get_audio_and_reset\<close> of a \<open>VADBuffer\<close> and
  \<open>get_audio\<close> of an \<open>AudioBuffer\<close> return \<open>b''\<close>, make no pydub call and leave
  the buffer as it was, that is, empty.
\<close>

theorem empty_buffer_returns_empty:
  "(chunks b = [] \<longrightarrow> get_audio_and_reset p b = (Inr [], b, []))
   \<and> (chunks_ab a = [] \<longrightarrow> get_audio p a = (Inr [], a, []))"
  by (simp add: get_audio_and_reset_def get_audio_def)

theorem empty_buffer_returns_empty_witness:
  "chunks VADBuffer_default = []
   \<and> get_audio_and_reset pydub_auto VADBuffer_default = (Inr [], VADBuffer_default, [])
   \<and> chunks_ab (AudioBuffer_init 3 60) = []
   \<and> get_audio pydub_auto (AudioBuffer_init 3 60) = (Inr [], AudioBuffer_init 3 60, [])"
  using empty_buffer_returns_empty [of VADBuffer_default pydub_auto "AudioBuffer_init 3 60"]
  by (simp add: VADBuffer_default_def AudioBuffer_init_def)


lemma length_silent_fragment [simp]: "length (silent_fragment n) = 2 * n"
  by (simp add: silent_fragment_def)

lemma is_silence_silent_fragment:
  "0 < rms_silence_threshold b \<Longrightarrow> is_silence b (silent_fragment n)"
  unfolding silent_fragment_def by (rule is_silence_zeros)

lemma default_threshold_positive: "0 < rms_silence_threshold VADBuffer_default"
  by (simp add: VADBuffer_default_def VADBuffer_init_def)

subsection \<open>The maximum duration and the speech gate\<close>

text \<open>
  Claim C1, as stated, fails: \<open>should_trigger\<close> first returns \<open>False\<close> when no
  speech was seen, before it looks at the duration. The default buffer receives one
  fragment of 9600 zero samples, 19200 bytes, which is silence and is 6.0 seconds by
  the estimate; \<open>should_trigger\<close> is false.
\<close>

theorem max_duration_all_silence_counterexample:
  "is_silence VADBuffer_default (silent_fragment 9600)
   \<and> max_duration_s VADBuffer_default
       \<le> get_duration (add_chunks VADBuffer_default [(0, silent_fragment 9600)])
   \<and> \<not> should_trigger (add_chunks VADBuffer_default [(0, silent_fragment 9600)]) 0"
proof -
  have sil: "is_silence VADBuffer_default (silent_fragment 9600)"
    by (rule is_silence_silent_fragment [OF default_threshold_positive])
  have dur: "max_duration_s VADBuffer_default
      \<le> get_duration (add_chunks VADBuffer_default [(0, silent_fragment 9600)])"
    by (simp add: get_duration_def VADBuffer_default_def VADBuffer_init_def)
  have "\<not> has_speech (add_chunk VADBuffer_default 0 (silent_fragment 9600))"
    unfolding add_chunk_has_speech using sil by (simp add: VADBuffer_default_def)
  then have "\<not> should_trigger (add_chunk VADBuffer_default 0 (silent_fragment 9600)) 0"
    by (rule should_trigger_needs_speech)
  then have trig: "\<not> should_trigger
      (add_chunks VADBuffer_default [(0, silent_fragment 9600)]) 0"
    by simp
  from sil dur trig show ?thesis by blast
qed

text \<open>
  Claim C1, amended. Fragments are added to a buffer, and speech was seen: the buffer
  had \<open>has_speech\<close> already or at least one of the fragments is not silence. If the
  total of the buffered bytes divided by 3200 is at least \<open>max_duration_s\<close>, then
  \<open>should_trigger\<close> is true, at every clock reading and whatever the silence run.
\<close>

theorem max_duration_backstop:
  assumes speech: "has_speech b0 \<or> (\<exists>x\<in>set frs. \<not> is_silence b0 (snd x))"
    and long: "max_duration_s b0
      \<le> real_of_int (total_bytes b0 + (\<Sum>x\<leftarrow>frs. int (length (snd x)))) / 3200"
  shows "should_trigger (add_chunks b0 frs) now"
proof -
  from speech have "has_speech (add_chunks b0 frs)"
    by (auto intro: add_chunks_keeps_speech add_chunks_some_speech)
  moreover from long
  have "max_duration_s (add_chunks b0 frs)
      \<le> real_of_int (total_bytes (add_chunks b0 frs)) / 3200"
    by (simp add: add_chunks_total_bytes)
  ultimately show ?thesis by (simp add: should_trigger_def)
qed

theorem max_duration_backstop_witness:
  "\<not> is_silence VADBuffer_default [0, 64]
   \<and> should_trigger
       (add_chunks VADBuffer_default [(0, [0, 64]), (1, silent_fragment 9599)]) 1"
proof -
  have speech: "has_speech VADBuffer_default
      \<or> (\<exists>x\<in>set [(0::real, [0, 64]), (1, silent_fragment 9599)].
            \<not> is_silence VADBuffer_default (snd x))"
    by (simp add: not_is_silence_loud)
  have long: "max_duration_s VADBuffer_default
      \<le> real_of_int (total_bytes VADBuffer_default
          + (\<Sum>x\<leftarrow>[(0::real, [0, 64]), (1, silent_fragment 9599)].
               int (length (snd x)))) / 3200"
    by (simp add: VADBuffer_default_def VADBuffer_init_def)
  have "should_trigger
      (add_chunks VADBuffer_default [(0, [0, 64]), (1, silent_fragment 9599)]) 1"
    by (rule max_duration_backstop [OF speech long])
  with not_is_silence_loud show ?thesis by blast
qed


subsection \<open>Trailing silence\<close>

text \<open>
  Claim C3. After any fragments, a fragment that is not silence arrives, and after
  it only fragments that are silence, at least one. The start of the silence run is
  the arrival time of the first of them. If the run has lasted
  \<open>silence_threshold_ms\<close> at the clock reading \<open>now\<close>, then \<open>should_trigger\<close> is
  true at \<open>now\<close> and at every later reading, with no fragment in between; after
  \<open>get_audio_and_reset\<close> it is false.
\<close>

theorem trailing_silence_triggers:
  assumes loud: "\<not> is_silence b0 f"
    and run: "sil \<noteq> []"
    and quiet: "\<forall>x\<in>set sil. is_silence b0 (snd x)"
    and b: "b = add_chunks (add_chunk (add_chunks b0 pre) t f) sil"
    and lasted: "real_of_int (silence_threshold_ms b0) \<le> (now - fst (hd sil)) * 1000"
    and later: "now \<le> later"
  shows "silence_start_time b = Some (fst (hd sil))
    \<and> should_trigger b now
    \<and> should_trigger b later
    \<and> \<not> should_trigger (fst (snd (get_audio_and_reset p b))) later"
proof -
  define b1 where "b1 = add_chunk (add_chunks b0 pre) t f"
  have thr': "is_silence (add_chunks b0 pre) f = is_silence b0 f"
    by (rule is_silence_threshold) simp
  from loud have sp1: "has_speech b1"
    by (simp add: b1_def add_chunk_has_speech thr')
  from loud have st1: "silence_start_time b1 = None"
    by (simp add: b1_def add_chunk_silence_start thr')
  from run obtain t1 s1 rest where sil: "sil = (t1, s1) # rest"
    by (cases sil) auto
  define b2 where "b2 = add_chunk b1 t1 s1"
  have same1: "is_silence b1 s1 = is_silence b0 s1"
    by (rule is_silence_threshold) (simp add: b1_def)
  have same2: "\<And>g. is_silence b2 g = is_silence b0 g"
    by (rule is_silence_threshold) (simp add: b2_def b1_def)
  from quiet sil have q1: "is_silence b0 s1" by simp
  from quiet sil have qrest: "\<forall>x\<in>set rest. is_silence b2 (snd x)"
    by (simp add: same2)
  have st2: "silence_start_time b2 = Some t1"
    using q1 st1 by (simp add: b2_def add_chunk_silence_start same1)
  have sp2: "has_speech b2"
    using sp1 by (simp add: b2_def add_chunk_has_speech)
  have b_eq: "b = add_chunks b2 rest"
    by (simp add: b sil b2_def b1_def)
  have start: "silence_start_time b = Some t1"
    unfolding b_eq using st2 qrest by (rule add_chunks_silence_run)
  have sp: "has_speech b"
    unfolding b_eq using sp2 by (rule add_chunks_keeps_speech)
  have thresh: "silence_threshold_ms b = silence_threshold_ms b0"
    by (simp add: b)
  from lasted have at_now: "real_of_int (silence_threshold_ms b) \<le> (now - t1) * 1000"
    by (simp add: thresh sil)
  have "(now - t1) * 1000 \<le> (later - t1) * 1000"
    using later by simp
  with at_now have at_later: "real_of_int (silence_threshold_ms b) \<le> (later - t1) * 1000"
    by linarith
  have nonempty: "chunks b \<noteq> []"
    by (simp add: b_eq add_chunks_chunks b2_def)
  have "\<not> has_speech (fst (snd (get_audio_and_reset p b)))"
    using nonempty by (simp add: get_audio_and_reset_state)
  then have after: "\<not> should_trigger (fst (snd (get_audio_and_reset p b))) later"
    by (rule should_trigger_needs_speech)
  have now_ok: "should_trigger b now"
    using start sp at_now by (simp add: should_trigger_def)
  have later_ok: "should_trigger b later"
    using start sp at_later by (simp add: should_trigger_def)
  from start now_ok later_ok after show ?thesis by (simp add: sil)
qed

theorem trailing_silence_triggers_witness:
  "should_trigger
     (add_chunks VADBuffer_default [(0, [0, 64]), (1, [0, 0]), (3 / 2, [0, 0])]) 2
   \<and> should_trigger
     (add_chunks VADBuffer_default [(0, [0, 64]), (1, [0, 0]), (3 / 2, [0, 0])]) 3
   \<and> \<not> should_trigger
     (fst (snd (get_audio_and_reset pydub_none
        (add_chunks VADBuffer_default [(0, [0, 64]), (1, [0, 0]), (3 / 2, [0, 0])])))) 3"
proof -
  have run: "[(1::real, [0, 0]), (3 / 2, [0, 0::8 word])] \<noteq> []" by simp
  have quiet: "\<forall>x\<in>set [(1::real, [0, 0]), (3 / 2, [0, 0::8 word])].
      is_silence VADBuffer_default (snd x)"
    by (simp add: is_silence_quiet)
  have b: "add_chunks VADBuffer_default [(0, [0, 64]), (1, [0, 0]), (3 / 2, [0, 0])]
      = add_chunks (add_chunk (add_chunks VADBuffer_default []) 0 [0, 64])
          [(1, [0, 0]), (3 / 2, [0, 0])]"
    by simp
  have lasted: "real_of_int (silence_threshold_ms VADBuffer_default)
      \<le> (2 - fst (hd [(1::real, [0, 0]), (3 / 2, [0, 0::8 word])])) * 1000"
    by (simp add: VADBuffer_default_def VADBuffer_init_def)
  have later: "(2::real) \<le> 3" by simp
  from trailing_silence_triggers
    [OF not_is_silence_loud run quiet b lasted later, of pydub_none]
  show ?thesis by blast
qed


subsection \<open>The state after \<open>get_audio_and_reset\<close>\<close>

text \<open>
  In every buffer that the methods can produce, an empty chunk list comes with no
  speech seen and no silence run: \<open>add_chunk\<close> always appends, and the list is
  emptied only by \<open>clear\<close>.
\<close>

lemma step_empty_is_idle:
  assumes "chunks b = [] \<longrightarrow> \<not> has_speech b \<and> silence_start_time b = None"
  shows "chunks (step p b x) = [] \<longrightarrow>
    \<not> has_speech (step p b x) \<and> silence_start_time (step p b x) = None"
  using assms by (cases x) (simp_all add: get_audio_and_reset_state)

lemma run_empty_is_idle:
  "chunks b = [] \<longrightarrow> \<not> has_speech b \<and> silence_start_time b = None \<Longrightarrow>
   chunks (run p b ops) = [] \<longrightarrow>
     \<not> has_speech (run p b ops) \<and> silence_start_time (run p b ops) = None"
proof (induction ops arbitrary: b)
  case Nil
  then show ?case by simp
next
  case (Cons x xs)
  from Cons.prems have "chunks (step p b x) = [] \<longrightarrow>
      \<not> has_speech (step p b x) \<and> silence_start_time (step p b x) = None"
    by (rule step_empty_is_idle)
  then show ?case using Cons.IH [of "step p b x"] by simp
qed

text \<open>
  Claim C4. A buffer is made by the constructor and changed by any sequence of
  method calls. After \<open>get_audio_and_reset\<close> on it, with any decoder and so on
  every outcome of the assembly, \<open>get_chunk_count()\<close> is 0, \<open>has_speech\<close> is false
  and \<open>silence_start_time\<close> is \<open>None\<close>.
\<close>

theorem reset_leaves_idle:
  assumes "b = run p (VADBuffer_init st md rt sr) ops"
    and "b' = fst (snd (get_audio_and_reset q b))"
  shows "get_chunk_count b' = 0 \<and> \<not> has_speech b' \<and> silence_start_time b' = None"
proof (cases "chunks b = []")
  case True
  have "chunks (VADBuffer_init st md rt sr) = [] \<longrightarrow>
      \<not> has_speech (VADBuffer_init st md rt sr)
      \<and> silence_start_time (VADBuffer_init st md rt sr) = None"
    by simp
  then have "chunks b = [] \<longrightarrow> \<not> has_speech b \<and> silence_start_time b = None"
    unfolding assms(1) by (rule run_empty_is_idle)
  with True assms(2) show ?thesis
    by (simp add: get_audio_and_reset_state get_chunk_count_def)
next
  case False
  with assms(2) show ?thesis
    by (simp add: get_audio_and_reset_state get_chunk_count_def)
qed

theorem reset_leaves_idle_witness:
  "has_speech (run pydub_none VADBuffer_default [Add_chunk 0 [1, 2], Add_chunk 1 [0, 0]])
   \<and> fst (get_audio_and_reset pydub_webm
        (run pydub_none VADBuffer_default [Add_chunk 0 [1, 2], Add_chunk 1 [0, 0]])) = Inr [7]
   \<and> get_chunk_count (fst (snd (get_audio_and_reset pydub_webm
        (run pydub_none VADBuffer_default [Add_chunk 0 [1, 2], Add_chunk 1 [0, 0]])))) = 0
   \<and> \<not> has_speech (fst (snd (get_audio_and_reset pydub_webm
        (run pydub_none VADBuffer_default [Add_chunk 0 [1, 2], Add_chunk 1 [0, 0]]))))
   \<and> silence_start_time (fst (snd (get_audio_and_reset pydub_webm
        (run pydub_none VADBuffer_default [Add_chunk 0 [1, 2], Add_chunk 1 [0, 0]])))) = None
   \<and> fst (get_audio_and_reset pydub_auto
        (run pydub_none VADBuffer_default [Add_chunk 0 [1, 2], Add_chunk 1 []])) = Inr [9]
   \<and> get_chunk_count (fst (snd (get_audio_and_reset pydub_auto
        (run pydub_none VADBuffer_default [Add_chunk 0 [1, 2], Add_chunk 1 []])))) = 0
   \<and> \<not> has_speech (fst (snd (get_audio_and_reset pydub_auto
        (run pydub_none VADBuffer_default [Add_chunk 0 [1, 2], Add_chunk 1 []]))))
   \<and> silence_start_time (fst (snd (get_audio_and_reset pydub_auto
        (run pydub_none VADBuffer_default [Add_chunk 0 [1, 2], Add_chunk 1 []])))) = None
   \<and> fst (get_audio_and_reset pydub_none
        (run pydub_none VADBuffer_default [Add_chunk 0 [1, 2], Add_chunk 1 [0, 0]])) = Inr [1, 2, 0, 0]
   \<and> get_chunk_count (fst (snd (get_audio_and_reset pydub_none
        (run pydub_none VADBuffer_default [Add_chunk 0 [1, 2], Add_chunk 1 [0, 0]])))) = 0
   \<and> \<not> has_speech (fst (snd (get_audio_and_reset pydub_none
        (run pydub_none VADBuffer_default [Add_chunk 0 [1, 2], Add_chunk 1 [0, 0]]))))
   \<and> silence_start_time (fst (snd (get_audio_and_reset pydub_none
        (run pydub_none VADBuffer_default [Add_chunk 0 [1, 2], Add_chunk 1 [0, 0]])))) = None"
proof -
  have made: "\<And>ops. run pydub_none VADBuffer_default ops
      = run pydub_none (VADBuffer_init 1000 6 (1 / 100) 16000) ops"
    by (simp add: VADBuffer_default_def)
  have c1: "chunks (run pydub_none VADBuffer_default [Add_chunk 0 [1, 2], Add_chunk 1 [0, 0]])
      = [[1, 2], [0, 0]]"
    and c2: "chunks (run pydub_none VADBuffer_default [Add_chunk 0 [1, 2], Add_chunk 1 []])
      = [[1, 2], []]"
    by (simp_all add: VADBuffer_default_def)
  have ne1: "chunks (run pydub_none VADBuffer_default [Add_chunk 0 [1, 2], Add_chunk 1 [0, 0]])
      \<noteq> []"
    and ne2: "chunks (run pydub_none VADBuffer_default [Add_chunk 0 [1, 2], Add_chunk 1 []])
      \<noteq> []"
    unfolding c1 c2 by simp_all
  have webm: "fst (convert_chunks pydub_webm [[1, 2], [0, 0]]) = Inr [7]"
    by (simp add: convert_chunks_def decode_combined_def pydub_webm_def Let_def)
  have detect: "fst (convert_chunks pydub_auto [[1, 2], []]) = Inr [9]"
    by (simp add: convert_chunks_def decode_combined_def pydub_auto_def Let_def)
  have raw: "fst (convert_chunks pydub_none [[1, 2], [0, 0]]) = Inl CouldntDecodeError"
    by (simp add: convert_chunks_def decode_combined_def pydub_none_def Let_def)
  have outs: "fst (get_audio_and_reset pydub_webm
        (run pydub_none VADBuffer_default [Add_chunk 0 [1, 2], Add_chunk 1 [0, 0]])) = Inr [7]"
    "fst (get_audio_and_reset pydub_auto
        (run pydub_none VADBuffer_default [Add_chunk 0 [1, 2], Add_chunk 1 []])) = Inr [9]"
    "fst (get_audio_and_reset pydub_none
        (run pydub_none VADBuffer_default [Add_chunk 0 [1, 2], Add_chunk 1 [0, 0]])) = Inr [1, 2, 0, 0]"
    unfolding get_audio_and_reset_result [OF ne1] get_audio_and_reset_result [OF ne2] c1 c2
    by (simp_all add: webm detect raw)
  have loud: "\<not> is_silence VADBuffer_default [1, 2]"
    by (simp add: is_silence_def frombuffer_int16_def int16_of_def rms_of_def
        VADBuffer_default_def VADBuffer_init_def real_sqrt_divide real_sqrt_mult
        real_less_lsqrt)
  have sp: "has_speech (run pydub_none VADBuffer_default [Add_chunk 0 [1, 2], Add_chunk 1 [0, 0]])"
    by (simp add: add_chunk_has_speech loud)
  note idle1 = reset_leaves_idle
      [OF made [of "[Add_chunk 0 [1, 2], Add_chunk 1 [0, 0]]"] refl, of pydub_webm]
    and idle2 = reset_leaves_idle
      [OF made [of "[Add_chunk 0 [1, 2], Add_chunk 1 []]"] refl, of pydub_auto]
    and idle3 = reset_leaves_idle
      [OF made [of "[Add_chunk 0 [1, 2], Add_chunk 1 [0, 0]]"] refl, of pydub_none]
  show ?thesis
    by (intro conjI sp outs idle1 [THEN conjunct1] idle1 [THEN conjunct2, THEN conjunct1]
        idle1 [THEN conjunct2, THEN conjunct2] idle2 [THEN conjunct1]
        idle2 [THEN conjunct2, THEN conjunct1] idle2 [THEN conjunct2, THEN conjunct2]
        idle3 [THEN conjunct1] idle3 [THEN conjunct2, THEN conjunct1]
        idle3 [THEN conjunct2, THEN conjunct2])
qed

subsection \<open>Fragments that numpy cannot read\<close>





subsection \<open>The assembly of the chunks\<close>

lemma convert_chunks_missing:
  "\<not> importable p \<Longrightarrow> convert_chunks p cs = (Inl ImportError, [])"
  by (simp add: convert_chunks_def)

lemma convert_chunks_webm:
  "importable p \<Longrightarrow> from_file p (concat cs) (Some ''webm'') = Inr audio \<Longrightarrow>
   convert_chunks p cs =
     (export p audio ''wav'', [From_file (concat cs) (Some ''webm''), Export audio ''wav''])"
  by (simp add: convert_chunks_def decode_combined_def Let_def)

lemma convert_chunks_auto:
  "importable p \<Longrightarrow> from_file p (concat cs) (Some ''webm'') = Inl e \<Longrightarrow>
   from_file p (concat cs) None = Inr audio \<Longrightarrow>
   convert_chunks p cs =
     (export p audio ''wav'',
      [From_file (concat cs) (Some ''webm''), From_file (concat cs) None,
       Export audio ''wav''])"
  by (simp add: convert_chunks_def decode_combined_def Let_def)

lemma convert_chunks_raw:
  "importable p \<Longrightarrow> from_file p (concat cs) (Some ''webm'') = Inl e \<Longrightarrow>
   from_file p (concat cs) None = Inl e' \<Longrightarrow>
   convert_chunks p cs =
     (Inl e', [From_file (concat cs) (Some ''webm''), From_file (concat cs) None])"
  by (simp add: convert_chunks_def decode_combined_def Let_def)

lemma convert_chunks_reads_all:
  "From_file bs f \<in> set (snd (convert_chunks p cs)) \<Longrightarrow> bs = concat cs"
  by (auto simp: convert_chunks_def decode_combined_def Let_def
      split: if_splits sum.splits prod.splits)

lemma get_audio_result:
  "chunks_ab a \<noteq> [] \<Longrightarrow>
   get_audio p a =
     (Inr (case fst (convert_chunks p (chunks_ab a)) of
             Inr w \<Rightarrow> w | Inl e \<Rightarrow> concat (chunks_ab a)),
      a, snd (convert_chunks p (chunks_ab a)))"
  by (simp add: get_audio_def split: prod.splits sum.splits)

lemma get_audio_state: "fst (snd (get_audio p a)) = a"
  by (simp add: get_audio_def split: prod.splits sum.splits)

lemma get_audio_reads_all:
  "From_file bs f \<in> set (snd (snd (get_audio p a))) \<Longrightarrow> bs = concat (chunks_ab a)"
  by (cases "chunks_ab a = []")
    (auto simp: get_audio_result dest: convert_chunks_reads_all, simp add: get_audio_def)

text \<open>
  Claim C7. The two buffers hold the same chunks, at least one. Both methods return
  a value (neither raises), the same value after the same pydub calls. With pydub
  installed, the first call decodes the joined chunks as webm; if it fails, the
  second decodes them with the format left to pydub; if that fails too, the value
  is the joined chunks, unchanged. Without pydub the value is the joined chunks as
  well.
\<close>

theorem assembly_never_raises:
  assumes some: "cs \<noteq> []"
    and vad: "chunks b = cs"
    and fixed: "chunks_ab a = cs"
  shows "(\<exists>out. fst (get_audio_and_reset p b) = Inr out)
    \<and> fst (get_audio p a) = fst (get_audio_and_reset p b)
    \<and> snd (snd (get_audio p a)) = snd (snd (get_audio_and_reset p b))
    \<and> (importable p \<longrightarrow>
          hd (snd (snd (get_audio_and_reset p b))) = From_file (concat cs) (Some ''webm''))
    \<and> (importable p \<and> isl (from_file p (concat cs) (Some ''webm'')) \<longrightarrow>
          take 2 (snd (snd (get_audio_and_reset p b)))
            = [From_file (concat cs) (Some ''webm''), From_file (concat cs) None])
    \<and> (isl (from_file p (concat cs) (Some ''webm'')) \<and> isl (from_file p (concat cs) None)
          \<longrightarrow> fst (get_audio_and_reset p b) = Inr (concat cs))
    \<and> (\<not> importable p \<longrightarrow> fst (get_audio_and_reset p b) = Inr (concat cs))"
proof -
  from some vad have nb: "chunks b \<noteq> []" by simp
  from some fixed have na: "chunks_ab a \<noteq> []" by simp
  note r = get_audio_and_reset_result [OF nb, of p] get_audio_result [OF na, of p]
  have c1: "\<exists>out. fst (get_audio_and_reset p b) = Inr out"
    by (simp add: r)
  have c2: "fst (get_audio p a) = fst (get_audio_and_reset p b)"
    by (simp add: r vad fixed split: sum.splits)
  have c3: "snd (snd (get_audio p a)) = snd (snd (get_audio_and_reset p b))"
    by (simp add: r vad fixed)
  have c4: "hd (snd (snd (get_audio_and_reset p b))) = From_file (concat cs) (Some ''webm'')"
    if "importable p"
    using that
    by (simp add: r vad convert_chunks_def decode_combined_def Let_def split: sum.splits)
  have c5: "take 2 (snd (snd (get_audio_and_reset p b)))
      = [From_file (concat cs) (Some ''webm''), From_file (concat cs) None]"
    if "importable p" "isl (from_file p (concat cs) (Some ''webm''))"
    using that
    by (auto simp: r vad convert_chunks_def decode_combined_def Let_def isl_def
        split: sum.splits)
  have c6: "fst (get_audio_and_reset p b) = Inr (concat cs)"
    if "isl (from_file p (concat cs) (Some ''webm''))" "isl (from_file p (concat cs) None)"
    using that
    by (auto simp: r vad convert_chunks_def decode_combined_def Let_def isl_def
        split: sum.splits)
  have c7: "fst (get_audio_and_reset p b) = Inr (concat cs)" if "\<not> importable p"
    using that by (simp add: r vad convert_chunks_missing)
  from c1 c2 c3 c4 c5 c6 c7 show ?thesis by blast
qed

theorem assembly_never_raises_witness:
  "fst (get_audio_and_reset pydub_none
       ((add_chunk (add_chunk VADBuffer_default 0 [1]) 1 [2]))) = Inr [1, 2]
   \<and> fst (get_audio pydub_none (add (add (AudioBuffer_init 3 60) [1]) [2])) = Inr [1, 2]
   \<and> snd (snd (get_audio pydub_none (add (add (AudioBuffer_init 3 60) [1]) [2])))
       = [From_file [1, 2] (Some ''webm''), From_file [1, 2] None]
   \<and> fst (get_audio_and_reset pydub_missing
       ((add_chunk (add_chunk VADBuffer_default 0 [1]) 1 [2]))) = Inr [1, 2]"
proof -
  have some: "[[1], [2::8 word]] \<noteq> []" by simp
  have vad: "chunks (add_chunk (add_chunk VADBuffer_default 0 [1]) 1 [2]) = [[1], [2]]"
    by (simp add: VADBuffer_default_def)
  have fixed: "chunks_ab (add (add (AudioBuffer_init 3 60) [1]) [2]) = [[1], [2]]"
    by (simp add: add_def AudioBuffer_init_def)
  have inst: "importable pydub_none"
    "isl (from_file pydub_none (concat [[1], [2]]) (Some ''webm''))"
    "isl (from_file pydub_none (concat [[1], [2]]) None)"
    by (simp_all add: pydub_none_def)
  have tr: "snd (convert_chunks pydub_none [[1], [2]])
      = [From_file [1, 2] (Some ''webm''), From_file [1, 2] None]"
    by (simp add: convert_chunks_def decode_combined_def pydub_none_def Let_def)
  have tr2: "snd (snd (get_audio pydub_none (add (add (AudioBuffer_init 3 60) [1]) [2])))
      = [From_file [1, 2] (Some ''webm''), From_file [1, 2] None]"
    using fixed by (simp add: get_audio_result tr)
  have gone: "\<not> importable pydub_missing"
    by (simp add: pydub_missing_def)
  from assembly_never_raises [OF some vad fixed, of pydub_none]
    assembly_never_raises [OF some vad fixed, of pydub_missing] inst tr2 gone
  show ?thesis by simp
qed


subsection \<open>\<open>AudioBuffer.get_audio\<close> does not clear\<close>

text \<open>
  Claim C6, as stated, fails: \<open>AudioBuffer\<close> has no operation that returns the
  audio and clears. \<open>get_audio\<close> leaves the chunks and the duration in place, and a
  second call reads the same fragment again. Here the buffer holds the one
  fragment \<open>[1, 2]\<close> and the decoder fails, so the value is the raw bytes.
\<close>

theorem get_audio_reads_twice_counterexample:
  "fst (get_audio pydub_none (add (AudioBuffer_init 3 60) [1, 2])) = Inr [1, 2]
   \<and> chunks_ab (fst (snd (get_audio pydub_none (add (AudioBuffer_init 3 60) [1, 2]))))
       = [[1, 2]]
   \<and> total_duration (fst (snd (get_audio pydub_none (add (AudioBuffer_init 3 60) [1, 2]))))
       = 1 / 1600
   \<and> fst (get_audio pydub_none
        (fst (snd (get_audio pydub_none (add (AudioBuffer_init 3 60) [1, 2])))))
       = Inr [1, 2]"
proof -
  have held: "chunks_ab (add (AudioBuffer_init 3 60) [1, 2]) = [[1, 2]]"
    by (simp add: add_def AudioBuffer_init_def)
  have dur: "total_duration (add (AudioBuffer_init 3 60) [1, 2]) = 1 / 1600"
    by (simp add: add_def AudioBuffer_init_def)
  have conv: "fst (convert_chunks pydub_none [[1, 2]]) = Inl CouldntDecodeError"
    by (simp add: convert_chunks_def decode_combined_def pydub_none_def Let_def)
  have val: "fst (get_audio pydub_none (add (AudioBuffer_init 3 60) [1, 2])) = Inr [1, 2]"
    by (simp add: get_audio_result held conv)
  from held dur val show ?thesis by (simp add: get_audio_state)
qed

text \<open>
  Claim C6, amended. \<open>get_audio\<close> assembles all the buffered fragments and leaves
  the buffer as it was. Assembling is: join the fragments, decode the joined bytes
  as webm, or with the format left to pydub when that fails, and return the WAV
  export of the decoded audio; the joined bytes themselves are returned when both
  decodes fail, when the export fails or when pydub is not installed. Every decode
  is of the joined bytes, and with pydub installed and a fragment in the buffer the
  first call is that decode. The buffer is cleared by the separate method
  \<open>clear\<close>, which empties the fragments and sets the accumulated duration to
  zero; after \<open>clear\<close>, \<open>get_audio\<close> returns \<open>b''\<close>, so no fragment is read
  again.
\<close>

theorem get_audio_keeps_buffer:
  "fst (snd (get_audio p b)) = b
   \<and> (\<forall>c\<in>set (snd (snd (get_audio p b))).
         \<forall>bs f. c = From_file bs f \<longrightarrow> bs = concat (chunks_ab b))
   \<and> (chunks_ab b \<noteq> [] \<and> importable p \<longrightarrow>
         hd (snd (snd (get_audio p b))) = From_file (concat (chunks_ab b)) (Some ''webm''))
   \<and> (chunks_ab b \<noteq> [] \<and> importable p
         \<and> from_file p (concat (chunks_ab b)) (Some ''webm'') = Inr au \<longrightarrow>
         get_audio p b =
           (Inr (case export p au ''wav'' of Inr w \<Rightarrow> w | Inl e \<Rightarrow> concat (chunks_ab b)),
            b,
            [From_file (concat (chunks_ab b)) (Some ''webm''), Export au ''wav'']))
   \<and> (chunks_ab b \<noteq> [] \<and> importable p
         \<and> from_file p (concat (chunks_ab b)) (Some ''webm'') = Inl webm_error
         \<and> from_file p (concat (chunks_ab b)) None = Inr au' \<longrightarrow>
         get_audio p b =
           (Inr (case export p au' ''wav'' of Inr w \<Rightarrow> w | Inl e \<Rightarrow> concat (chunks_ab b)),
            b,
            [From_file (concat (chunks_ab b)) (Some ''webm''),
             From_file (concat (chunks_ab b)) None, Export au' ''wav'']))
   \<and> (chunks_ab b \<noteq> [] \<and> importable p
         \<and> from_file p (concat (chunks_ab b)) (Some ''webm'') = Inl webm_error
         \<and> from_file p (concat (chunks_ab b)) None = Inl auto_error \<longrightarrow>
         get_audio p b =
           (Inr (concat (chunks_ab b)), b,
            [From_file (concat (chunks_ab b)) (Some ''webm''),
             From_file (concat (chunks_ab b)) None]))
   \<and> (chunks_ab b \<noteq> [] \<and> \<not> importable p \<longrightarrow>
         get_audio p b = (Inr (concat (chunks_ab b)), b, []))
   \<and> chunks_ab (clear_ab b) = []
   \<and> total_duration (clear_ab b) = 0
   \<and> get_audio p (clear_ab b) = (Inr [], clear_ab b, [])"
proof -
  have kept: "fst (snd (get_audio p b)) = b"
    by (rule get_audio_state)
  have whole: "\<forall>c\<in>set (snd (snd (get_audio p b))).
      \<forall>bs f. c = From_file bs f \<longrightarrow> bs = concat (chunks_ab b)"
    by (auto dest: get_audio_reads_all)
  have first: "hd (snd (snd (get_audio p b))) = From_file (concat (chunks_ab b)) (Some ''webm'')"
    if "chunks_ab b \<noteq> []" "importable p"
    using that
    by (simp add: get_audio_result convert_chunks_def decode_combined_def Let_def
        split: sum.splits)
  have webm: "get_audio p b =
      (Inr (case export p au ''wav'' of Inr w \<Rightarrow> w | Inl e \<Rightarrow> concat (chunks_ab b)), b,
       [From_file (concat (chunks_ab b)) (Some ''webm''), Export au ''wav''])"
    if "chunks_ab b \<noteq> []" "importable p"
      "from_file p (concat (chunks_ab b)) (Some ''webm'') = Inr au"
    using that by (simp add: get_audio_result convert_chunks_webm)
  have detect: "get_audio p b =
      (Inr (case export p au' ''wav'' of Inr w \<Rightarrow> w | Inl e \<Rightarrow> concat (chunks_ab b)), b,
       [From_file (concat (chunks_ab b)) (Some ''webm''),
        From_file (concat (chunks_ab b)) None, Export au' ''wav''])"
    if "chunks_ab b \<noteq> []" "importable p"
      "from_file p (concat (chunks_ab b)) (Some ''webm'') = Inl webm_error"
      "from_file p (concat (chunks_ab b)) None = Inr au'"
    using that by (simp add: get_audio_result convert_chunks_auto)
  have raw: "get_audio p b =
      (Inr (concat (chunks_ab b)), b,
       [From_file (concat (chunks_ab b)) (Some ''webm''),
        From_file (concat (chunks_ab b)) None])"
    if "chunks_ab b \<noteq> []" "importable p"
      "from_file p (concat (chunks_ab b)) (Some ''webm'') = Inl webm_error"
      "from_file p (concat (chunks_ab b)) None = Inl auto_error"
    using that by (simp add: get_audio_result convert_chunks_raw)
  have missing: "get_audio p b = (Inr (concat (chunks_ab b)), b, [])"
    if "chunks_ab b \<noteq> []" "\<not> importable p"
    using that by (simp add: get_audio_result convert_chunks_missing)
  have cleared: "chunks_ab (clear_ab b) = []" "total_duration (clear_ab b) = 0"
    by (simp_all add: clear_ab_def)
  have again: "get_audio p (clear_ab b) = (Inr [], clear_ab b, [])"
    by (simp add: get_audio_def cleared)
  show ?thesis
    by (intro conjI impI kept whole cleared again; (elim conjE)?)
      (erule (1) first, erule (2) webm, erule (3) detect, erule (3) raw, erule (1) missing)
qed

theorem get_audio_keeps_buffer_witness:
  "get_audio pydub_webm (add (add (AudioBuffer_init 3 60) [1]) [2])
     = (Inr [7], (add (add (AudioBuffer_init 3 60) [1]) [2]), [From_file [1, 2] (Some ''webm''), Export () ''wav''])
   \<and> get_audio pydub_auto (add (add (AudioBuffer_init 3 60) [1]) [2])
     = (Inr [9], (add (add (AudioBuffer_init 3 60) [1]) [2]),
        [From_file [1, 2] (Some ''webm''), From_file [1, 2] None, Export () ''wav''])
   \<and> get_audio pydub_none (add (add (AudioBuffer_init 3 60) [1]) [2])
     = (Inr [1, 2], (add (add (AudioBuffer_init 3 60) [1]) [2]), [From_file [1, 2] (Some ''webm''), From_file [1, 2] None])
   \<and> get_audio pydub_missing (add (add (AudioBuffer_init 3 60) [1]) [2]) = (Inr [1, 2], (add (add (AudioBuffer_init 3 60) [1]) [2]), [])
   \<and> chunks_ab (add (add (AudioBuffer_init 3 60) [1]) [2]) = [[1], [2]]
   \<and> chunks_ab (clear_ab (add (add (AudioBuffer_init 3 60) [1]) [2])) = []
   \<and> total_duration (clear_ab (add (add (AudioBuffer_init 3 60) [1]) [2])) = 0
   \<and> get_audio pydub_auto (clear_ab (add (add (AudioBuffer_init 3 60) [1]) [2])) = (Inr [], clear_ab (add (add (AudioBuffer_init 3 60) [1]) [2]), [])"
proof -
  have held: "chunks_ab (add (add (AudioBuffer_init 3 60) [1]) [2]) = [[1], [2]]"
    by (simp add: add_def AudioBuffer_init_def)
  have some: "chunks_ab (add (add (AudioBuffer_init 3 60) [1]) [2]) \<noteq> []"
    unfolding held by simp
  have joined: "concat (chunks_ab (add (add (AudioBuffer_init 3 60) [1]) [2])) = [1, 2]"
    unfolding held by simp
  have w1: "importable pydub_webm"
    "from_file pydub_webm (concat (chunks_ab (add (add (AudioBuffer_init 3 60) [1]) [2]))) (Some ''webm'') = Inr ()"
    "export pydub_webm () ''wav'' = Inr [7]"
    by (simp_all add: pydub_webm_def)
  have w2: "importable pydub_auto"
    "from_file pydub_auto (concat (chunks_ab (add (add (AudioBuffer_init 3 60) [1]) [2]))) (Some ''webm'') = Inl CouldntDecodeError"
    "from_file pydub_auto (concat (chunks_ab (add (add (AudioBuffer_init 3 60) [1]) [2]))) None = Inr ()"
    "export pydub_auto () ''wav'' = Inr [9]"
    unfolding joined by (simp_all add: pydub_auto_def)
  have w3: "importable pydub_none"
    "from_file pydub_none (concat (chunks_ab (add (add (AudioBuffer_init 3 60) [1]) [2]))) (Some ''webm'') = Inl CouldntDecodeError"
    "from_file pydub_none (concat (chunks_ab (add (add (AudioBuffer_init 3 60) [1]) [2]))) None = Inl CouldntDecodeError"
    by (simp_all add: pydub_none_def)
  have w4: "\<not> importable pydub_missing"
    by (simp add: pydub_missing_def)
  note t1 = get_audio_keeps_buffer [where p = pydub_webm and b = "(add (add (AudioBuffer_init 3 60) [1]) [2])" and au = "()"]
    and t2 = get_audio_keeps_buffer [where p = pydub_auto and b = "(add (add (AudioBuffer_init 3 60) [1]) [2])"
        and webm_error = CouldntDecodeError and au' = "()"]
    and t3 = get_audio_keeps_buffer [where p = pydub_none and b = "(add (add (AudioBuffer_init 3 60) [1]) [2])"
        and webm_error = CouldntDecodeError and auto_error = CouldntDecodeError]
    and t4 = get_audio_keeps_buffer [where p = pydub_missing and b = "(add (add (AudioBuffer_init 3 60) [1]) [2])"]
  note rest = conjunct2 [THEN conjunct2, THEN conjunct2]
  have "get_audio pydub_webm (add (add (AudioBuffer_init 3 60) [1]) [2])
      = (Inr (case export pydub_webm () ''wav'' of
                Inr w \<Rightarrow> w | Inl e \<Rightarrow> concat (chunks_ab (add (add (AudioBuffer_init 3 60) [1]) [2]))),
         (add (add (AudioBuffer_init 3 60) [1]) [2]),
         [From_file (concat (chunks_ab (add (add (AudioBuffer_init 3 60) [1]) [2]))) (Some ''webm''), Export () ''wav''])"
    by (rule t1 [THEN rest, THEN conjunct1, THEN mp]) (intro conjI some w1)
  then have r1: "get_audio pydub_webm (add (add (AudioBuffer_init 3 60) [1]) [2])
      = (Inr [7], (add (add (AudioBuffer_init 3 60) [1]) [2]), [From_file [1, 2] (Some ''webm''), Export () ''wav''])"
    unfolding joined w1(3) by simp
  have "get_audio pydub_auto (add (add (AudioBuffer_init 3 60) [1]) [2])
      = (Inr (case export pydub_auto () ''wav'' of
                Inr w \<Rightarrow> w | Inl e \<Rightarrow> concat (chunks_ab (add (add (AudioBuffer_init 3 60) [1]) [2]))),
         (add (add (AudioBuffer_init 3 60) [1]) [2]),
         [From_file (concat (chunks_ab (add (add (AudioBuffer_init 3 60) [1]) [2]))) (Some ''webm''),
          From_file (concat (chunks_ab (add (add (AudioBuffer_init 3 60) [1]) [2]))) None, Export () ''wav''])"
    by (rule t2 [THEN rest, THEN conjunct2, THEN conjunct1, THEN mp])
      (intro conjI some w2)
  then have r2: "get_audio pydub_auto (add (add (AudioBuffer_init 3 60) [1]) [2])
      = (Inr [9], (add (add (AudioBuffer_init 3 60) [1]) [2]),
         [From_file [1, 2] (Some ''webm''), From_file [1, 2] None, Export () ''wav''])"
    unfolding joined w2(4) by simp
  have "get_audio pydub_none (add (add (AudioBuffer_init 3 60) [1]) [2])
      = (Inr (concat (chunks_ab (add (add (AudioBuffer_init 3 60) [1]) [2]))), (add (add (AudioBuffer_init 3 60) [1]) [2]),
         [From_file (concat (chunks_ab (add (add (AudioBuffer_init 3 60) [1]) [2]))) (Some ''webm''),
          From_file (concat (chunks_ab (add (add (AudioBuffer_init 3 60) [1]) [2]))) None])"
    by (rule t3 [THEN rest, THEN conjunct2, THEN conjunct2, THEN conjunct1, THEN mp])
      (intro conjI some w3)
  then have r3: "get_audio pydub_none (add (add (AudioBuffer_init 3 60) [1]) [2])
      = (Inr [1, 2], (add (add (AudioBuffer_init 3 60) [1]) [2]), [From_file [1, 2] (Some ''webm''), From_file [1, 2] None])"
    unfolding joined .
  have "get_audio pydub_missing (add (add (AudioBuffer_init 3 60) [1]) [2]) = (Inr (concat (chunks_ab (add (add (AudioBuffer_init 3 60) [1]) [2]))), (add (add (AudioBuffer_init 3 60) [1]) [2]), [])"
    by (rule t4 [THEN rest, THEN rest, THEN conjunct1, THEN mp]) (intro conjI some w4)
  then have r4: "get_audio pydub_missing (add (add (AudioBuffer_init 3 60) [1]) [2]) = (Inr [1, 2], (add (add (AudioBuffer_init 3 60) [1]) [2]), [])"
    unfolding joined .
  note r5 = t2 [THEN rest, THEN rest, THEN conjunct2]
  show ?thesis
    by (intro conjI r1 r2 r3 r4 held r5 [THEN conjunct1]
        r5 [THEN conjunct2, THEN conjunct1] r5 [THEN conjunct2, THEN conjunct2])
qed

subsection \<open>\<open>validate_format\<close> and the allowed formats\<close>

lemma validate_format_value:
  "fst (validate_format p audio_bytes allowed)
     = Inr (importable p \<and> \<not> isl (from_file p audio_bytes None))"
  by (simp add: validate_format_def Let_def split: sum.splits)

lemma validate_format_returns: "\<exists>ok. fst (validate_format p audio_bytes allowed) = Inr ok"
  by (simp add: validate_format_value)

text \<open>
  Claim C8 does not hold of the code: \<open>validate_format\<close> never looks at
  \<open>allowed_formats\<close>. A stream that pydub decodes when left to detect the format,
  and does not decode as \<open>wav\<close>, is accepted with \<open>['wav']\<close> as the allowed
  formats, and with an empty list of allowed formats too. The only pydub call is
  the one with no format.
\<close>

theorem validate_format_ignores_allowed:
  "from_file pydub_auto [1, 2] (Some ''wav'') = Inl CouldntDecodeError
   \<and> validate_format pydub_auto [1, 2] (Some [''wav''])
       = (Inr True, [From_file [1, 2] None])
   \<and> validate_format pydub_auto [1, 2] (Some []) = (Inr True, [From_file [1, 2] None])"
  by (simp add: validate_format_def pydub_auto_def)

end
